theory Spec2Isabelle
  imports Complex_Main "HOL-Library.Sublist"
begin

section \<open>Values of the host language\<close>

text \<open>
  A spreadsheet cell as pandas hands it to the program. A numeric cell is modelled by its
  exact rational value: Python's \<open>int\<close> and \<open>float\<close> compare and hash by value, and every
  operation the program applies to a numeric cell (\<open><=\<close>, \<open>>\<close>, \<open>==\<close>, \<open>int()\<close>, the
  \<open>isinstance(item, (int, float))\<close> test) depends on that value only. \<open>NaN\<close> is the missing
  value pandas puts in an empty cell. Dates and other cell types are outside the model.
\<close>

datatype cell = Num rat | NaN | Str string

text \<open>The exceptions the modelled statements can raise.\<close>

datatype exn = ValueError | TypeError | AttributeError | KeyError | ReadFailure string

text \<open>\<open>show_alert(title, message)\<close>: the message box is the observable report of an action.\<close>

datatype alert = Alert string string

text \<open>
  How a button handler ends: with a message box, by a plain \<open>return\<close>, or with an
  exception that leaves the handler.
\<close>

datatype outcome = Shown alert | Returned | Raised exn

subsection \<open>\<open>str(n)\<close> for an integer\<close>

definition digit_char :: "nat \<Rightarrow> char" where
  "digit_char d = ''0123456789'' ! d"

fun str_nat :: "nat \<Rightarrow> string" where
  "str_nat n = (if n < 10 then [digit_char n] else str_nat (n div 10) @ [digit_char (n mod 10)])"

declare str_nat.simps [simp del]

definition str_int :: "int \<Rightarrow> string" where
  "str_int i = (if i < 0 then CHR ''-'' # str_nat (nat (- i)) else str_nat (nat i))"

text \<open>\<open>int(x)\<close> for a number: truncation towards zero.\<close>

definition int_of_num :: "rat \<Rightarrow> int" where
  "int_of_num q = (if 0 \<le> q then \<lfloor>q\<rfloor> else - \<lfloor>- q\<rfloor>)"

subsection \<open>\<open>int(s)\<close> for a string\<close>

text \<open>
  CPython on an ASCII string: surrounding white space is skipped, one sign is allowed, then
  decimal digits, where single underscores may separate digits. Everything else raises
  \<open>ValueError\<close>. Strings are byte strings here; digits outside ASCII and the limit on the number
  of digits in recent interpreters are outside the model.
\<close>

definition c_isspace :: "char \<Rightarrow> bool" where
  "c_isspace c = (c \<in> set [CHR '' '', CHR 0x09, CHR 0x0A, CHR 0x0B, CHR 0x0C, CHR 0x0D])"

definition digit_val :: "char \<Rightarrow> nat option" where
  "digit_val c = map_of
     [(CHR ''0'', 0), (CHR ''1'', 1), (CHR ''2'', 2), (CHR ''3'', 3), (CHR ''4'', 4),
      (CHR ''5'', 5), (CHR ''6'', 6), (CHR ''7'', 7), (CHR ''8'', 8), (CHR ''9'', 9)] c"

fun parse_digits :: "nat \<Rightarrow> string \<Rightarrow> nat option" where
  "parse_digits acc [] = Some acc"
| "parse_digits acc (c # cs) =
     (if c = CHR ''_'' then
        (case cs of
           [] \<Rightarrow> None
         | d # ds \<Rightarrow> (case digit_val d of None \<Rightarrow> None | Some v \<Rightarrow> parse_digits (10 * acc + v) ds))
      else (case digit_val c of None \<Rightarrow> None | Some v \<Rightarrow> parse_digits (10 * acc + v) cs))"

definition parse_unsigned :: "string \<Rightarrow> nat option" where
  "parse_unsigned s =
     (case s of
        [] \<Rightarrow> None
      | d # ds \<Rightarrow> (case digit_val d of None \<Rightarrow> None | Some v \<Rightarrow> parse_digits v ds))"

definition py_int :: "string \<Rightarrow> int option" where
  "py_int s =
     (case rev (dropWhile c_isspace (rev (dropWhile c_isspace s))) of
        [] \<Rightarrow> None
      | c # cs \<Rightarrow>
          if c = CHR ''-'' then map_option (\<lambda>n. - int n) (parse_unsigned cs)
          else if c = CHR ''+'' then map_option int (parse_unsigned cs)
          else map_option int (parse_unsigned (c # cs)))"

text \<open>\<open>s.strip()\<close> on an ASCII string: the characters for which \<open>str.isspace\<close> holds.\<close>

definition py_isspace :: "char \<Rightarrow> bool" where
  "py_isspace c = (c \<in> set [CHR '' '', CHR 0x09, CHR 0x0A, CHR 0x0B, CHR 0x0C, CHR 0x0D,
                              CHR 0x1C, CHR 0x1D, CHR 0x1E, CHR 0x1F])"

definition strip :: "string \<Rightarrow> string" where
  "strip s = rev (dropWhile py_isspace (rev (dropWhile py_isspace s)))"

section \<open>The DNO store\<close>

text \<open>
  The file \<open>dno.db\<close>: it may be missing; when it is there it may hold no table \<open>dno\<close> yet
  (\<open>File None\<close>, what a fresh connection leaves behind), or the table
  \<open>dno (article TEXT UNIQUE)\<close> with its rows in insertion order. The rows are the strings the
  program itself inserted.
\<close>

datatype dno_file = Missing | File "string list option"

fun rows_of :: "dno_file \<Rightarrow> string list" where
  "rows_of Missing = []"
| "rows_of (File None) = []"
| "rows_of (File (Some xs)) = xs"

text \<open>The identifiers in the store.\<close>

definition members :: "dno_file \<Rightarrow> string set" where
  "members db = set (rows_of db)"

text \<open>\<open>sqlite3.connect("dno.db")\<close> followed by \<open>CREATE TABLE IF NOT EXISTS dno (article TEXT UNIQUE)\<close>.\<close>

definition create_table_if_not_exists :: "dno_file \<Rightarrow> dno_file" where
  "create_table_if_not_exists db = File (Some (rows_of db))"

text \<open>\<open>INSERT OR IGNORE INTO dno (article) VALUES (?)\<close> under the \<open>UNIQUE\<close> constraint.\<close>

definition insert_or_ignore :: "string \<Rightarrow> string list \<Rightarrow> string list" where
  "insert_or_ignore a xs = (if a \<in> set xs then xs else xs @ [a])"

text \<open>\<open>DELETE FROM dno WHERE article = ?\<close>, and the \<open>rowcount\<close> it leaves in the cursor.\<close>

definition delete_where :: "string \<Rightarrow> string list \<Rightarrow> string list" where
  "delete_where a xs = filter (\<lambda>x. x \<noteq> a) xs"

definition rowcount :: "string \<Rightarrow> string list \<Rightarrow> nat" where
  "rowcount a xs = length (filter (\<lambda>x. x = a) xs)"

text \<open>A store this program wrote never holds an identifier twice.\<close>

definition wf_store :: "dno_file \<Rightarrow> bool" where
  "wf_store db = distinct (rows_of db)"

section \<open>The application state\<close>

record inv_row =
  Department :: cell
  Merchandise_Category :: cell
  Article_Description :: cell
  Article :: cell
  Inventory :: cell

record app =
  df_inventory :: "inv_row list"
  filtered_zeros :: "cell set"
  filtered_lows :: "cell set"
  zero_count :: nat
  new_found_dnos :: nat
  lights_bool :: "string \<rightharpoonup> bool"

definition departments :: "(string \<times> string list) list" where
  "departments =
     [(''Grocery'', [''Grocery'']),
      (''Meat'', [''Meat'', ''Deli'']),
      (''Bakery'', [''Bakery Commercial'', ''Bakery Instore'']),
      (''Dairy/Frozen'', [''Bulk'']),
      (''Seafood'', [''Seafood'']),
      (''HMR'', [''HMR'']),
      (''Produce'', [''Produce'']),
      (''Home'', [''Home'', ''Entertainment''])]"

definition BANNED_CATS :: "string list" where
  "BANNED_CATS =
     [''Nuts/ Dried Fruit'', ''Fresh-'', ''Field Veg'', ''Root Veg'', ''Salad Veg'',
      ''Cooking Veg'', ''Peppers'', ''Tomatoes'',
      ''Lamb'', ''Sausage'', ''Hams'',
      ''Books-'', ''Magazines'', ''Newspapers'']"

definition LOW_THRESHOLD :: int where
  "LOW_THRESHOLD = 2"

text \<open>The state \<open>__init__\<close> builds.\<close>

definition init :: app where
  "init = \<lparr> df_inventory = [], filtered_zeros = {}, filtered_lows = {}, zero_count = 0,
             new_found_dnos = 0,
             lights_bool = map_of (map (\<lambda>(dep, _). (dep, False)) departments) \<rparr>"

section \<open>DNO operations\<close>

subsection \<open>\<open>fetch_dno_articles\<close>\<close>

fun ints_of :: "string list \<Rightarrow> exn + int list" where
  "ints_of [] = Inr []"
| "ints_of (r # rs) =
     (case py_int r of
        None \<Rightarrow> Inl ValueError
      | Some n \<Rightarrow> (case ints_of rs of Inl e \<Rightarrow> Inl e | Inr ns \<Rightarrow> Inr (n # ns)))"

text \<open>
  Returns the store after the call and the value returned or the exception raised. Without a
  file the function returns at once (an empty collection); with one it creates the table if
  needed and converts every row with \<open>int\<close>.
\<close>

definition fetch_dno_articles :: "dno_file \<Rightarrow> dno_file \<times> (exn + int list)" where
  "fetch_dno_articles db =
     (case db of
        Missing \<Rightarrow> (Missing, Inr [])
      | File t \<Rightarrow> (create_table_if_not_exists db, ints_of (rows_of db)))"

subsection \<open>\<open>add_new_DNO\<close> and \<open>remove_from_DNO\<close>\<close>

text \<open>
  Both read the entry field and strip it, return silently on an empty text, and ask for
  confirmation (\<open>confirm\<close> is the answer of the dialog).
\<close>

definition add_new_DNO :: "app \<Rightarrow> dno_file \<Rightarrow> string \<Rightarrow> bool \<Rightarrow> app \<times> dno_file \<times> outcome" where
  "add_new_DNO s db entry confirm =
     (let article = strip entry in
      if article = [] then (s, db, Returned)
      else if confirm then
        (s\<lparr>new_found_dnos := new_found_dnos s + 1\<rparr>,
         File (Some (insert_or_ignore article (rows_of db))),
         Shown (Alert ''Inserted'' (''Article '' @ article @ '' added to DNO.'')))
      else (s, db, Returned))"

text \<open>
  \<open>remove_from_DNO\<close> connects (which leaves an empty file behind when there was none) but
  does not create the table: without a table the \<open>DELETE\<close> raises \<open>sqlite3.OperationalError\<close>,
  which the handler catches and shows.
\<close>

definition remove_from_DNO :: "app \<Rightarrow> dno_file \<Rightarrow> string \<Rightarrow> bool \<Rightarrow> app \<times> dno_file \<times> outcome" where
  "remove_from_DNO s db entry confirm =
     (let article = strip entry in
      if article = [] then (s, db, Returned)
      else if confirm then
        (case db of
           File (Some xs) \<Rightarrow>
             if rowcount article xs > 0 then
               (s\<lparr>new_found_dnos := new_found_dnos s + 1\<rparr>,
                File (Some (delete_where article xs)),
                Shown (Alert ''Success'' (''Article '' @ article @ '' removed from DNO.'')))
             else
               (s, File (Some (delete_where article xs)),
                Shown (Alert ''Not Found'' (''Article '' @ article @ '' was not in DNO.'')))
         | _ \<Rightarrow> (s, File None, Shown (Alert ''Error'' ''no such table: dno'')))
      else (s, db, Returned))"

subsection \<open>\<open>import_dno\<close>\<close>

text \<open>
  What the file dialog hands back: nothing, a \<open>.db\<close> file (with its content), or any other
  file, which \<open>pd.read_excel(file_path, sheet_name=None)\<close> either fails to read (with the text
  of its exception) or reads sheet by sheet. A sheet is the list of its rows from the top,
  each row the list of its cells (of a sheet with a single column pandas skips the blank
  rows, which hold no value; they are not in the list). The cells are the values pandas
  delivers: a text cell may already have become a number there, since pandas converts a
  column in which every cell reads as one.
\<close>

type_synonym sheet = "cell list list"

type_synonym frame = "cell list list"

datatype picked_dno = Nothing_selected | Db_file "string list option" | Excel_file "string + sheet list"

text \<open>
  \<open>read_excel\<close> is called without \<open>header\<close>, so with the default \<open>header=0\<close>: the first row
  of every sheet becomes the column names of its data frame, and the rows below it are the
  values of the frame.
\<close>

definition read_excel :: "sheet list \<Rightarrow> frame list" where
  "read_excel book = map tl book"

text \<open>\<open>pd.Series(df.iloc[:, :10].values.ravel()).dropna()\<close>, collected over the frames.\<close>

definition sheet_values :: "frame \<Rightarrow> cell list" where
  "sheet_values df = filter (\<lambda>c. c \<noteq> NaN) (concat (map (take 10) df))"

definition all_values :: "frame list \<Rightarrow> cell list" where
  "all_values xls = concat (map sheet_values xls)"

text \<open>
  The body of the insertion loop up to the \<open>str(item)\<close> that is bound to the statement: a
  number goes through \<open>str(int(item))\<close> (\<open>int\<close> of the missing value raises), a string stays.
\<close>

fun normalize :: "cell \<Rightarrow> exn + string" where
  "normalize (Num q) = Inr (str_int (int_of_num q))"
| "normalize NaN = Inl ValueError"
| "normalize (Str s) = Inr s"

fun insert_all :: "cell list \<Rightarrow> string list \<Rightarrow> exn + string list" where
  "insert_all [] xs = Inr xs"
| "insert_all (item # items) xs =
     (case normalize item of
        Inl e \<Rightarrow> Inl e
      | Inr a \<Rightarrow> insert_all items (insert_or_ignore a xs))"

text \<open>
  The number the handler computes for its report, \<open>new_count - existing_count\<close>, and the
  report itself.
\<close>

definition import_report :: "nat \<Rightarrow> alert" where
  "import_report diff =
     (if diff > 0 then Alert [] (''Imported '' @ str_nat diff @ '' new DNO articles.'')
      else Alert [] ''No new DNO articles or all duplicates.'')"

definition import_error :: "string \<Rightarrow> alert" where
  "import_error e = Alert ''Error'' (''An error occurred importing DNO:'' @ [CHR 0x0A] @ e)"

definition exn_text :: "exn \<Rightarrow> string" where
  "exn_text e = (case e of ReadFailure m \<Rightarrow> m | _ \<Rightarrow> [])"

text \<open>
  An exception inside the \<open>try\<close> is caught and shown. One raised in the loop would leave the
  table created and the insertions uncommitted.
\<close>

definition import_dno :: "app \<Rightarrow> dno_file \<Rightarrow> picked_dno \<Rightarrow> app \<times> dno_file \<times> outcome" where
  "import_dno s db picked =
     (case picked of
        Nothing_selected \<Rightarrow> (s, db, Shown (Alert ''Error'' ''No file selected.''))
      | Db_file content \<Rightarrow> (s, File content, Shown (Alert ''Success'' ''dno.db replaced.''))
      | Excel_file (Inl e) \<Rightarrow> (s, db, Shown (import_error e))
      | Excel_file (Inr book) \<Rightarrow>
          (let xls = read_excel book;
               existing_count = length (rows_of db) in
           case insert_all (all_values xls) (rows_of db) of
             Inl e \<Rightarrow> (s, create_table_if_not_exists db, Shown (import_error (exn_text e)))
           | Inr rows \<Rightarrow>
               (let diff = length rows - existing_count in
                (if diff > 0 then s\<lparr>new_found_dnos := new_found_dnos s + diff\<rparr> else s,
                 File (Some rows),
                 Shown (import_report diff)))))"

subsection \<open>\<open>export_dno\<close>\<close>

text \<open>
  The destination \<open>~/Downloads/dno.db\<close>: its path, the file there (if any), and whether
  \<open>shutil.copyfile\<close> to it fails (with the text of the exception), as it does when the
  directory is missing or not writable.
\<close>

record downloads =
  dst_path :: string
  dst_file :: "string list option option"
  copy_fails :: "string option"

definition export_dno :: "dno_file \<Rightarrow> downloads \<Rightarrow> downloads \<times> outcome" where
  "export_dno db d =
     (case db of
        Missing \<Rightarrow> (d, Shown (Alert ''Error'' ''No local dno.db found to export.''))
      | File content \<Rightarrow>
          (case copy_fails d of
             None \<Rightarrow> (d\<lparr>dst_file := Some content\<rparr>,
                       Shown (Alert ''Success'' (''dno.db exported to:'' @ [CHR 0x0A] @ dst_path d)))
           | Some e \<Rightarrow> (d, Shown (Alert ''Error'' (''Unable to export dno.db: '' @ e)))))"

section \<open>The inventory table\<close>

subsection \<open>\<open>upload_excel\<close>\<close>

text \<open>
  What the file dialog and \<open>pd.read_excel\<close> hand back: nothing, a file that cannot be read,
  or a data frame, of which the handler uses the first column (by position) and the five
  columns it selects by name; \<open>None\<close> for these when one of the names is missing.
\<close>

datatype picked_inventory = No_file | Unreadable string | Frame "cell list" "inv_row list option"

text \<open>The inner loop over \<open>self.departments.items()\<close>, left at the first group holding \<open>dep\<close>.\<close>

definition mark_department :: "(string \<rightharpoonup> bool) \<Rightarrow> cell \<Rightarrow> (string \<rightharpoonup> bool)" where
  "mark_department lights dep =
     (case dep of
        Str d \<Rightarrow>
          (case find (\<lambda>(outer_key, inner_values). d \<in> set inner_values) departments of
             Some (outer_key, _) \<Rightarrow> lights(outer_key \<mapsto> True)
           | None \<Rightarrow> lights)
      | _ \<Rightarrow> lights)"

text \<open>\<open>is_banned\<close>: \<open>cat.startswith\<close> exists for strings only.\<close>

definition is_banned :: "cell \<Rightarrow> exn + bool" where
  "is_banned cat =
     (case cat of
        Str c \<Rightarrow> Inr (list_ex (\<lambda>bad. prefix bad c) BANNED_CATS)
      | _ \<Rightarrow> Inl AttributeError)"

text \<open>
  Boolean indexing \<open>df[mask]\<close>, where the mask comes from a test applied to every row: the
  first test that raises ends the whole statement. On a frame without rows the test is never
  called, and the statement is taken to select no rows.
\<close>

fun select_rows :: "(inv_row \<Rightarrow> exn + bool) \<Rightarrow> inv_row list \<Rightarrow> exn + inv_row list" where
  "select_rows p [] = Inr []"
| "select_rows p (r # rs) =
     (case p r of
        Inl e \<Rightarrow> Inl e
      | Inr b \<Rightarrow>
          (case select_rows p rs of
             Inl e \<Rightarrow> Inl e
           | Inr ks \<Rightarrow> Inr (if b then r # ks else ks)))"

definition not_banned :: "inv_row \<Rightarrow> exn + bool" where
  "not_banned r = (case is_banned (Merchandise_Category r) of Inl e \<Rightarrow> Inl e | Inr b \<Rightarrow> Inr (\<not> b))"

text \<open>\<open>drop_duplicates(subset=["Article"], keep="last", ignore_index=True)\<close>.\<close>

fun drop_duplicates_last :: "inv_row list \<Rightarrow> inv_row list" where
  "drop_duplicates_last [] = []"
| "drop_duplicates_last (r # rs) =
     (if Article r \<in> set (map Article rs) then drop_duplicates_last rs
      else r # drop_duplicates_last rs)"

text \<open>
  The lights are set before the rows are filtered, so they stay set when the filter raises;
  the table is assigned only after it.
\<close>

definition upload_excel :: "app \<Rightarrow> picked_inventory \<Rightarrow> app \<times> outcome" where
  "upload_excel s picked =
     (case picked of
        No_file \<Rightarrow> (s, Returned)
      | Unreadable e \<Rightarrow> (s, Raised (ReadFailure e))
      | Frame departments_in_file named \<Rightarrow>
          (let s1 = s\<lparr>lights_bool := foldl mark_department (lights_bool s) departments_in_file\<rparr> in
           case named of
             None \<Rightarrow> (s1, Raised KeyError)
           | Some rows \<Rightarrow>
               (case select_rows not_banned rows of
                  Inl e \<Rightarrow> (s1, Raised e)
                | Inr new_df \<Rightarrow>
                    (s1\<lparr>df_inventory :=
                          drop_duplicates_last
                            (if df_inventory s1 = [] then new_df else df_inventory s1 @ new_df)\<rparr>,
                     Returned))))"

text \<open>A session of uploads: an exception ends one handler, not the application.\<close>

definition uploads :: "app \<Rightarrow> picked_inventory list \<Rightarrow> app" where
  "uploads s ps = foldl (\<lambda>s p. fst (upload_excel s p)) s ps"

section \<open>The classifier\<close>

text \<open>
  The comparisons on the \<open>Inventory\<close> column: a number compares by value, the missing value
  compares false, a string raises \<open>TypeError\<close>.
\<close>

definition is_zero :: "inv_row \<Rightarrow> exn + bool" where
  "is_zero r =
     (case Inventory r of Num q \<Rightarrow> Inr (q \<le> 0) | NaN \<Rightarrow> Inr False | Str _ \<Rightarrow> Inl TypeError)"

definition is_low :: "inv_row \<Rightarrow> exn + bool" where
  "is_low r =
     (case Inventory r of
        Num q \<Rightarrow> Inr (q > 0 \<and> q \<le> of_int LOW_THRESHOLD)
      | NaN \<Rightarrow> Inr False
      | Str _ \<Rightarrow> Inl TypeError)"

text \<open>
  \<open>zero_df["Article"].isin(dno_set)\<close> for one row: equality with one of the integers. A
  string is equal to none of them.
\<close>

definition isin :: "cell \<Rightarrow> int list \<Rightarrow> bool" where
  "isin c dno_set = (c \<in> set (map (\<lambda>n. Num (of_int n)) dno_set))"

text \<open>
  The handlers below also rebuild the button that sends the set to SAP; the button and the
  replay are not part of the model.
\<close>

definition found_zeros :: "nat \<Rightarrow> alert" where
  "found_zeros n =
     Alert ''Success'' (''Found '' @ str_nat n @ '' Zeros.'' @ [CHR 0x0A] @ ''Ready to send to SAP.'')"

definition no_data :: alert where
  "no_data = Alert ''No Data'' ''Please upload Excel first.''"

definition find_zeros :: "app \<Rightarrow> dno_file \<Rightarrow> app \<times> dno_file \<times> outcome" where
  "find_zeros s db =
     (if df_inventory s = [] then (s, db, Shown no_data)
      else
        (case select_rows is_zero (df_inventory s) of
           Inl e \<Rightarrow> (s, db, Raised e)
         | Inr zero_df \<Rightarrow>
             (case fetch_dno_articles db of
                (db', Inl e) \<Rightarrow> (s, db', Raised e)
              | (db', Inr dno_set) \<Rightarrow>
                  (let zeros = filtered_zeros s
                         \<union> set (map Article (filter (\<lambda>r. \<not> isin (Article r) dno_set) zero_df))
                   in (s\<lparr>filtered_zeros := zeros, zero_count := card zeros\<rparr>, db',
                       Shown (found_zeros (card zeros)))))))"

definition find_lows :: "app \<Rightarrow> app \<times> outcome" where
  "find_lows s =
     (if df_inventory s = [] then (s, Shown no_data)
      else
        (case select_rows is_low (df_inventory s) of
           Inl e \<Rightarrow> (s, Raised e)
         | Inr low_df \<Rightarrow>
             (let lows = filtered_lows s \<union> set (map Article low_df)
              in (s\<lparr>filtered_lows := lows\<rparr>,
                  Shown (Alert ''Success'' (''Found '' @ str_nat (card lows) @ '' Lows''))))))"

section \<open>Example data\<close>

text \<open>Concrete rows, uploads and stores on which the theorems below are instantiated.\<close>

definition example_row :: "string \<Rightarrow> rat \<Rightarrow> rat \<Rightarrow> inv_row" where
  "example_row cat art n =
     \<lparr>Department = Str ''Grocery'', Merchandise_Category = Str cat,
      Article_Description = Str ''Item'', Article = Num art, Inventory = Num n\<rparr>"

definition example_first_upload :: picked_inventory where
  "example_first_upload = Frame [Str ''Produce''] (Some [example_row ''Produce'' 1001 5])"

definition example_banned_upload :: picked_inventory where
  "example_banned_upload = Frame [Str ''Meat''] (Some [example_row ''Lamb-Ground'' 1001 0])"

definition example_uploads :: "picked_inventory list" where
  "example_uploads =
     [Frame [Str ''Meat'', Str ''Produce'']
        (Some [example_row ''Lamb-Ground'' 2001 4, example_row ''Produce'' 1002 2]),
      Frame [Str ''Meat''] (Some [example_row ''Lamb-Ground'' 2001 0])]"

definition example_blank_category :: inv_row where
  "example_blank_category =
     \<lparr>Department = Str ''Grocery'', Merchandise_Category = NaN,
      Article_Description = Str ''Item'', Article = Num 1001, Inventory = Num 0\<rparr>"

definition example_downloads :: downloads where
  "example_downloads = \<lparr>dst_path = ''/home/clerk/Downloads/dno.db'', dst_file = None, copy_fails = None\<rparr>"

definition example_workbook :: "sheet list" where
  "example_workbook =
     [[[Str ''Article'', Str ''Alias'', Str ''Note''],
       [Num 123, Str ''123'', NaN],
       [Num (247 / 2), Str ''123.0'', Str ''Lamb''],
       [NaN, Str ''A-77'', NaN]],
      [[NaN, Num 9999, NaN, NaN, NaN, NaN, NaN, NaN, NaN, NaN, NaN],
       [NaN, Num 1001, NaN, NaN, NaN, NaN, NaN, NaN, NaN, NaN, Num 5555]]]"


definition example_repeated_upload :: picked_inventory where
  "example_repeated_upload =
     Frame [Str ''Produce'']
       (Some [example_row ''Produce'' 1001 3, example_row ''Produce'' 1002 7,
              example_row ''Produce'' 1001 0])"

definition example_inventory :: app where
  "example_inventory = fst (upload_excel init (Frame [Str ''Produce'', Str ''Bakery Instore'']
     (Some [example_row ''Produce'' 1001 0, example_row ''Produce'' 1002 2,
            example_row ''Produce'' 1003 5, example_row ''Bakery'' 1005 1])))"

section \<open>Row selection and duplicate removal\<close>

lemma select_rows_total:
  "\<forall>r\<in>set rs. \<exists>b. p r = Inr b \<Longrightarrow> select_rows p rs = Inr (filter (\<lambda>r. p r = Inr True) rs)"
  by (induction rs) auto

lemma select_rows_Inr:
  "select_rows p rs = Inr ks \<Longrightarrow> ks = filter (\<lambda>r. p r = Inr True) rs \<and> (\<forall>r\<in>set rs. \<exists>b. p r = Inr b)"
  by (induction rs arbitrary: ks) (auto split: sum.splits if_splits)

lemma select_rows_Inl:
  "select_rows p rs = Inl e \<Longrightarrow> \<exists>r\<in>set rs. p r = Inl e"
  by (induction rs) (auto split: sum.splits)

lemma drop_duplicates_last_subset: "set (drop_duplicates_last rs) \<subseteq> set rs"
  by (induction rs) auto

lemma drop_duplicates_last_articles:
  "set (map Article (drop_duplicates_last rs)) = set (map Article rs)"
  by (induction rs) auto

lemma drop_duplicates_last_distinct: "distinct (map Article (drop_duplicates_last rs))"
proof (induction rs)
  case Nil
  show ?case by simp
next
  case (Cons r rs)
  have "Article r \<notin> set (map Article rs) \<Longrightarrow> Article r \<notin> set (map Article (drop_duplicates_last rs))"
    using drop_duplicates_last_articles [of rs] by simp
  with Cons show ?case by simp
qed

lemma filter_article_absent:
  "a \<notin> set (map Article rs) \<Longrightarrow> filter (\<lambda>x. Article x = a) rs = []"
  by (induction rs) auto

lemma filter_article_present:
  "a \<in> set (map Article rs) \<Longrightarrow> filter (\<lambda>x. Article x = a) rs \<noteq> []"
  by (induction rs) auto

lemma drop_duplicates_last_filter:
  "filter (\<lambda>x. Article x = a) (drop_duplicates_last rs) =
     (if filter (\<lambda>x. Article x = a) rs = [] then [] else [last (filter (\<lambda>x. Article x = a) rs)])"
proof (induction rs)
  case Nil
  show ?case by simp
next
  case (Cons r rs)
  show ?case
  proof (cases "Article r \<in> set (map Article rs)")
    case True
    show ?thesis
    proof (cases "Article r = a")
      case same: True
      with True have "filter (\<lambda>x. Article x = a) rs \<noteq> []"
        using filter_article_present [of a rs] by simp
      with True same Cons show ?thesis by simp
    next
      case False
      with True Cons show ?thesis by simp
    qed
  next
    case False
    show ?thesis
    proof (cases "Article r = a")
      case same: True
      with False have "filter (\<lambda>x. Article x = a) rs = []"
        using filter_article_absent [of a rs] by simp
      with False same Cons show ?thesis by simp
    next
      case diff: False
      with False Cons show ?thesis by simp
    qed
  qed
qed

section \<open>Properties of the upload\<close>

lemma not_banned_True:
  "not_banned r = Inr True \<longleftrightarrow>
     (\<exists>c. Merchandise_Category r = Str c \<and> (\<forall>bad\<in>set BANNED_CATS. \<not> prefix bad c))"
  by (cases "Merchandise_Category r") (simp_all add: not_banned_def is_banned_def list_ex_iff)

lemma not_banned_Inl:
  "not_banned r = Inl e \<longleftrightarrow> e = AttributeError \<and> (\<forall>c. Merchandise_Category r \<noteq> Str c)"
  by (cases "Merchandise_Category r") (auto simp add: not_banned_def is_banned_def)

lemma not_banned_Inr:
  "(\<exists>b. not_banned r = Inr b) \<longleftrightarrow> (\<exists>c. Merchandise_Category r = Str c)"
  by (cases "Merchandise_Category r") (simp_all add: not_banned_def is_banned_def)

lemma not_banned_is_banned:
  "not_banned r = Inr True \<longleftrightarrow> is_banned (Merchandise_Category r) = Inr False"
  by (cases "is_banned (Merchandise_Category r)") (simp_all add: not_banned_def)

lemma drop_duplicates_last_id:
  "distinct (map Article rs) \<Longrightarrow> drop_duplicates_last rs = rs"
  by (induction rs) auto

lemma upload_excel_Frame:
  "upload_excel s (Frame col (Some rows)) =
     (case select_rows not_banned rows of
        Inl e \<Rightarrow> (s\<lparr>lights_bool := foldl mark_department (lights_bool s) col\<rparr>, Raised e)
      | Inr new_df \<Rightarrow>
          (s\<lparr>lights_bool := foldl mark_department (lights_bool s) col,
             df_inventory := drop_duplicates_last
                (if df_inventory s = [] then new_df else df_inventory s @ new_df)\<rparr>,
           Returned))"
  by (simp add: upload_excel_def Let_def split: sum.splits)

lemma upload_excel_unchanged:
  "p = No_file \<or> p = Unreadable e \<or> p = Frame col None \<Longrightarrow>
     df_inventory (fst (upload_excel s p)) = df_inventory s"
  by (auto simp: upload_excel_def Let_def)

lemma upload_excel_rows:
  "set (df_inventory (fst (upload_excel s p))) \<subseteq>
     set (df_inventory s) \<union> {r. not_banned r = Inr True}"
proof (cases p)
  case No_file
  then show ?thesis using upload_excel_unchanged [of p _ _ s] by simp
next
  case (Unreadable e)
  then show ?thesis using upload_excel_unchanged [of p e _ s] by simp
next
  case (Frame col named)
  show ?thesis
  proof (cases named)
    case None
    with Frame show ?thesis using upload_excel_unchanged [of p _ col s] by simp
  next
    case (Some rows)
    show ?thesis
    proof (cases "select_rows not_banned rows")
      case (Inl e)
      with Frame Some show ?thesis by (simp add: upload_excel_Frame)
    next
      case (Inr new_df)
      then have new: "set new_df \<subseteq> {r. not_banned r = Inr True}"
        using select_rows_Inr [of not_banned rows new_df] by auto
      have "df_inventory (fst (upload_excel s p)) =
          drop_duplicates_last (if df_inventory s = [] then new_df else df_inventory s @ new_df)"
        using Frame Some Inr by (simp add: upload_excel_Frame)
      then have "set (df_inventory (fst (upload_excel s p))) \<subseteq> set (df_inventory s) \<union> set new_df"
        using drop_duplicates_last_subset [of "df_inventory s @ new_df"]
          drop_duplicates_last_subset [of new_df]
        by (cases "df_inventory s = []") auto
      with new show ?thesis by blast
    qed
  qed
qed

lemma df_inventory_init: "df_inventory init = []"
  by (simp add: init_def)

lemma uploads_rows:
  "set (df_inventory (uploads s ps)) \<subseteq> set (df_inventory s) \<union> {r. not_banned r = Inr True}"
proof (induction ps arbitrary: s)
  case Nil
  show ?case by (simp add: uploads_def)
next
  case (Cons p ps)
  have "uploads s (p # ps) = uploads (fst (upload_excel s p)) ps"
    by (simp add: uploads_def)
  then show ?case
    using Cons [of "fst (upload_excel s p)"] upload_excel_rows [of s p] by auto
qed

section \<open>Properties of the DNO store\<close>

lemma members_delete_where: "set (delete_where a xs) = set xs - {a}"
  by (auto simp: delete_where_def)

lemma rowcount_pos_iff: "rowcount a xs > 0 \<longleftrightarrow> a \<in> set xs"
  by (induction xs) (auto simp: rowcount_def)

lemma delete_where_absent: "a \<notin> set xs \<Longrightarrow> delete_where a xs = xs"
  by (induction xs) (auto simp: delete_where_def)

lemma members_simps:
  "members Missing = {}" "members (File None) = {}" "members (File (Some xs)) = set xs"
  by (simp_all add: members_def)

lemma ints_of_ok:
  "\<forall>a\<in>set rs. py_int a \<noteq> None \<Longrightarrow> \<exists>ids. ints_of rs = Inr ids \<and> map Some ids = map py_int rs"
  by (induction rs) auto

lemma ints_of_fails:
  "a \<in> set rs \<Longrightarrow> py_int a = None \<Longrightarrow> ints_of rs = Inl ValueError"
  by (induction rs) (auto split: option.splits sum.splits)

section \<open>Properties of the import\<close>

lemma all_values_iff:
  "c \<in> set (all_values xls) \<longleftrightarrow>
     c \<noteq> NaN \<and> (\<exists>df\<in>set xls. \<exists>row\<in>set df. c \<in> set (take 10 row))"
  by (auto simp: all_values_def sheet_values_def)

lemma normalize_defined: "c \<noteq> NaN \<Longrightarrow> \<exists>a. normalize c = Inr a"
  by (cases c) simp_all

lemma insert_or_ignore_set: "set (insert_or_ignore a xs) = insert a (set xs)"
  by (auto simp: insert_or_ignore_def)

lemma insert_or_ignore_distinct: "distinct xs \<Longrightarrow> distinct (insert_or_ignore a xs)"
  by (simp add: insert_or_ignore_def)

lemma insert_or_ignore_present: "a \<in> set xs \<Longrightarrow> insert_or_ignore a xs = xs"
  by (simp add: insert_or_ignore_def)

lemma insert_all_defined:
  "NaN \<notin> set vs \<Longrightarrow>
     \<exists>ys. insert_all vs xs = Inr ys
        \<and> set ys = set xs \<union> {a. \<exists>c\<in>set vs. normalize c = Inr a}
        \<and> (distinct xs \<longrightarrow> distinct ys)"
proof (induction vs arbitrary: xs)
  case Nil
  show ?case by simp
next
  case (Cons v vs)
  then have "v \<noteq> NaN" and rest: "NaN \<notin> set vs" by auto
  then obtain a where a: "normalize v = Inr a"
    using normalize_defined by blast
  from Cons.IH [OF rest, of "insert_or_ignore a xs"]
  obtain ys where ys: "insert_all vs (insert_or_ignore a xs) = Inr ys"
      "set ys = set (insert_or_ignore a xs) \<union> {a. \<exists>c\<in>set vs. normalize c = Inr a}"
      "distinct (insert_or_ignore a xs) \<longrightarrow> distinct ys"
    by blast
  have "insert_all (v # vs) xs = Inr ys"
    using a ys(1) by simp
  moreover have "set ys = set xs \<union> {b. \<exists>c\<in>set (v # vs). normalize c = Inr b}"
    using a ys(2) by (auto simp: insert_or_ignore_set)
  moreover have "distinct xs \<longrightarrow> distinct ys"
    using ys(3) by (simp add: insert_or_ignore_distinct)
  ultimately show ?case by blast
qed

lemma insert_all_again:
  "\<forall>c\<in>set vs. \<exists>a. normalize c = Inr a \<and> a \<in> set ys \<Longrightarrow> insert_all vs ys = Inr ys"
  by (induction vs) (auto simp: insert_or_ignore_present)

lemma length_diff_card:
  assumes "distinct xs" "distinct ys" "set xs \<subseteq> set ys"
  shows "length ys - length xs = card (set ys - set xs)"
proof -
  have "card (set ys - set xs) = card (set ys) - card (set xs)"
    using assms(3) by (simp add: card_Diff_subset)
  with assms(1,2) show ?thesis by (simp add: distinct_card)
qed

lemma read_excel_values:
  "c \<in> set (all_values (read_excel book)) \<longleftrightarrow>
     c \<noteq> NaN \<and> (\<exists>sheet\<in>set book. \<exists>row\<in>set (tl sheet). c \<in> set (take 10 row))"
  by (auto simp: all_values_iff read_excel_def)

text \<open>
  The identifiers an import binds to its \<open>INSERT\<close> statements, cell by cell: the rows below
  the first of every sheet, their first ten cells, numbers by their integer part, strings as
  they are.
\<close>

lemma stored_identifiers:
  "{a. \<exists>c\<in>set (all_values (read_excel book)). normalize c = Inr a} =
     {str_int (int_of_num q) |q.
        \<exists>sheet\<in>set book. \<exists>row\<in>set (tl sheet). Num q \<in> set (take 10 row)}
     \<union> {t. \<exists>sheet\<in>set book. \<exists>row\<in>set (tl sheet). Str t \<in> set (take 10 row)}"
  (is "?L = ?N \<union> ?S")
proof (rule set_eqI)
  fix a
  show "a \<in> ?L \<longleftrightarrow> a \<in> ?N \<union> ?S"
  proof
    assume "a \<in> ?L"
    then obtain c where c: "c \<in> set (all_values (read_excel book))" "normalize c = Inr a"
      by blast
    then obtain sheet row where in_row: "sheet \<in> set book" "row \<in> set (tl sheet)"
        "c \<in> set (take 10 row)"
      by (auto simp: read_excel_values)
    show "a \<in> ?N \<union> ?S"
    proof (cases c)
      case (Num q)
      with c(2) in_row show ?thesis by auto
    next
      case NaN
      with c(2) show ?thesis by simp
    next
      case (Str t)
      with c(2) in_row show ?thesis by auto
    qed
  next
    assume "a \<in> ?N \<union> ?S"
    then consider q sheet row where "a = str_int (int_of_num q)" "sheet \<in> set book"
          "row \<in> set (tl sheet)" "Num q \<in> set (take 10 row)"
      | sheet row where "sheet \<in> set book" "row \<in> set (tl sheet)" "Str a \<in> set (take 10 row)"
      by blast
    then show "a \<in> ?L"
    proof cases
      case 1
      then have "Num q \<in> set (all_values (read_excel book))" "normalize (Num q) = Inr a"
        by (auto simp: read_excel_values)
      then show ?thesis by blast
    next
      case 2
      then have "Str a \<in> set (all_values (read_excel book))" "normalize (Str a) = Inr a"
        by (auto simp: read_excel_values)
      then show ?thesis by blast
    qed
  qed
qed

lemma import_dno_excel:
  "\<exists>rows. insert_all (all_values (read_excel book)) (rows_of db) = Inr rows
     \<and> set rows = members db
          \<union> {a. \<exists>c\<in>set (all_values (read_excel book)). normalize c = Inr a}
     \<and> (wf_store db \<longrightarrow> distinct rows)
     \<and> import_dno s db (Excel_file (Inr book)) =
         (if length rows - length (rows_of db) > 0
          then s\<lparr>new_found_dnos := new_found_dnos s + (length rows - length (rows_of db))\<rparr> else s,
          File (Some rows),
          Shown (import_report (length rows - length (rows_of db))))"
proof -
  have "NaN \<notin> set (all_values (read_excel book))"
    by (simp add: all_values_iff)
  from insert_all_defined [OF this, of "rows_of db"]
  obtain rows where rows: "insert_all (all_values (read_excel book)) (rows_of db) = Inr rows"
      "set rows = set (rows_of db)
         \<union> {a. \<exists>c\<in>set (all_values (read_excel book)). normalize c = Inr a}"
      "distinct (rows_of db) \<longrightarrow> distinct rows"
    by blast
  then show ?thesis
    by (simp add: import_dno_def Let_def members_def wf_store_def)
qed

lemma example_import:
  "fst (snd (import_dno init Missing (Excel_file (Inr example_workbook))))
     = File (Some [''123'', ''123.0'', ''Lamb'', ''A-77'', ''1001''])"
  "snd (snd (import_dno init Missing (Excel_file (Inr example_workbook))))
     = Shown (Alert [] ''Imported 5 new DNO articles.'')"
  by code_simp+

text \<open>
  The handlers keep the store free of duplicates, as the \<open>UNIQUE\<close> constraint does; the
  import does so too (\<open>import_dno_excel\<close>).
\<close>

lemma wf_store_add_new_DNO:
  "wf_store db \<Longrightarrow> wf_store (fst (snd (add_new_DNO s db entry confirm)))"
  by (simp add: add_new_DNO_def Let_def wf_store_def insert_or_ignore_distinct)

lemma wf_store_remove_from_DNO:
  "wf_store db \<Longrightarrow> wf_store (fst (snd (remove_from_DNO s db entry confirm)))"
  by (cases db rule: rows_of.cases)
    (simp_all add: remove_from_DNO_def Let_def wf_store_def delete_where_def)

lemma wf_store_fetch_dno_articles:
  "wf_store db \<Longrightarrow> wf_store (fst (fetch_dno_articles db))"
  by (cases db) (simp_all add: fetch_dno_articles_def create_table_if_not_exists_def wf_store_def)

section \<open>Properties of the classifier\<close>

lemma example_inventory_rows:
  "df_inventory example_inventory =
     [example_row ''Produce'' 1001 0, example_row ''Produce'' 1002 2,
      example_row ''Produce'' 1003 5, example_row ''Bakery'' 1005 1]"
  by code_simp

lemma is_low_True:
  "is_low r = Inr True \<longleftrightarrow> (\<exists>q. Inventory r = Num q \<and> 0 < q \<and> q \<le> of_int LOW_THRESHOLD)"
  by (cases "Inventory r") (simp_all add: is_low_def)

lemma is_zero_True:
  "is_zero r = Inr True \<longleftrightarrow> (\<exists>q. Inventory r = Num q \<and> q \<le> 0)"
  by (cases "Inventory r") (simp_all add: is_zero_def)

lemma is_low_defined: "(\<exists>b. is_low r = Inr b) \<longleftrightarrow> (\<forall>t. Inventory r \<noteq> Str t)"
  by (cases "Inventory r") (auto simp: is_low_def)

lemma is_zero_defined: "(\<exists>b. is_zero r = Inr b) \<longleftrightarrow> (\<forall>t. Inventory r \<noteq> Str t)"
  by (cases "Inventory r") (auto simp: is_zero_def)

lemma low_articles:
  "set (map Article (filter (\<lambda>r. is_low r = Inr True) rs)) =
     {Article r |r. r \<in> set rs \<and> (\<exists>q. Inventory r = Num q \<and> 0 < q \<and> q \<le> of_int LOW_THRESHOLD)}"
  by (auto simp: is_low_True)

text \<open>
  What \<open>find_zeros\<close> does when every identifier in the store reads as an integer: the rows
  with a count of at most zero whose article is the value of no stored identifier are added to
  the running set, which so never shrinks, and its size is stored and shown.
\<close>

lemma isin_iff: "isin c ids \<longleftrightarrow> (\<exists>n\<in>set ids. c = Num (of_int n))"
  by (auto simp: isin_def)

lemma find_zeros_empty: "df_inventory s = [] \<Longrightarrow> find_zeros s db = (s, db, Shown no_data)"
  by (simp add: find_zeros_def)

lemma find_zeros_integer_store:
  assumes ne: "df_inventory s \<noteq> []"
    and typed: "\<forall>r\<in>set (df_inventory s). \<forall>t. Inventory r \<noteq> Str t"
    and ints: "\<forall>a\<in>members db. py_int a \<noteq> None"
  shows "\<exists>zeros. zeros = filtered_zeros s \<union>
            {Article r |r. r \<in> set (df_inventory s) \<and> (\<exists>q. Inventory r = Num q \<and> q \<le> 0)
               \<and> \<not> (\<exists>a\<in>members db. \<exists>n. py_int a = Some n \<and> Article r = Num (of_int n))}
          \<and> find_zeros s db =
              (s\<lparr>filtered_zeros := zeros, zero_count := card zeros\<rparr>,
               fst (fetch_dno_articles db), Shown (found_zeros (card zeros)))"
proof -
  have sel: "select_rows is_zero (df_inventory s) = Inr (filter (\<lambda>r. is_zero r = Inr True) (df_inventory s))"
    using typed by (intro select_rows_total) (simp add: is_zero_defined)
  from ints obtain ids where ids: "ints_of (rows_of db) = Inr ids" "map Some ids = map py_int (rows_of db)"
    using ints_of_ok [of "rows_of db"] by (auto simp: members_def)
  define db' where "db' = fst (fetch_dno_articles db)"
  have fetch: "fetch_dno_articles db = (db', Inr ids)"
    using ids(1) by (cases db) (simp_all add: fetch_dno_articles_def db'_def)
  have in_ids: "n \<in> set ids \<longleftrightarrow> (\<exists>a\<in>members db. py_int a = Some n)" for n
  proof -
    have "n \<in> set ids \<longleftrightarrow> Some n \<in> set (map Some ids)" by auto
    also have "\<dots> \<longleftrightarrow> Some n \<in> set (map py_int (rows_of db))" by (simp only: ids(2))
    also have "\<dots> \<longleftrightarrow> (\<exists>a\<in>members db. py_int a = Some n)"
      by (auto simp: members_def intro: rev_image_eqI)
    finally show ?thesis .
  qed
  have excl: "isin c ids \<longleftrightarrow> (\<exists>a\<in>members db. \<exists>n. py_int a = Some n \<and> c = Num (of_int n))" for c
    unfolding isin_iff using in_ids by blast
  have sets: "set (map Article (filter (\<lambda>r. \<not> isin (Article r) ids)
        (filter (\<lambda>r. is_zero r = Inr True) (df_inventory s)))) =
      {Article r |r. r \<in> set (df_inventory s) \<and> (\<exists>q. Inventory r = Num q \<and> q \<le> 0)
         \<and> \<not> (\<exists>a\<in>members db. \<exists>n. py_int a = Some n \<and> Article r = Num (of_int n))}"
    unfolding excl is_zero_True by auto
  define zeros where "zeros = filtered_zeros s \<union> set (map Article
      (filter (\<lambda>r. \<not> isin (Article r) ids) (filter (\<lambda>r. is_zero r = Inr True) (df_inventory s))))"
  have "find_zeros s db =
      (s\<lparr>filtered_zeros := zeros, zero_count := card zeros\<rparr>, db', Shown (found_zeros (card zeros)))"
    using ne sel fetch by (simp add: find_zeros_def zeros_def Let_def)
  moreover have "zeros = filtered_zeros s \<union>
      {Article r |r. r \<in> set (df_inventory s) \<and> (\<exists>q. Inventory r = Num q \<and> q \<le> 0)
         \<and> \<not> (\<exists>a\<in>members db. \<exists>n. py_int a = Some n \<and> Article r = Num (of_int n))}"
    unfolding zeros_def sets ..
  ultimately show ?thesis
    unfolding db'_def by blast
qed

section \<open>The claims\<close>

subsection \<open>Inventory table\<close>

text \<open>
  C6. Whatever sequence of uploads the session has seen, starting from the state
  \<open>__init__\<close> builds, every row of the accumulated table has a string category that starts
  with none of the banned prefixes; in particular no row has the category \<open>Lamb-Ground\<close>.
\<close>

theorem banned_rows_never_present:
  assumes "r \<in> set (df_inventory (uploads init ps))"
  shows "\<exists>c. Merchandise_Category r = Str c \<and> (\<forall>bad\<in>set BANNED_CATS. \<not> prefix bad c)
             \<and> c \<noteq> ''Lamb-Ground''"
proof -
  from assms uploads_rows [of init ps] have "not_banned r = Inr True"
    by (auto simp: df_inventory_init)
  then obtain c where c: "Merchandise_Category r = Str c" "\<forall>bad\<in>set BANNED_CATS. \<not> prefix bad c"
    by (auto simp: not_banned_True)
  have "prefix ''Lamb'' ''Lamb-Ground''" by simp
  moreover have "''Lamb'' \<in> set BANNED_CATS" by (simp add: BANNED_CATS_def)
  ultimately have "c \<noteq> ''Lamb-Ground''" using c(2) by blast
  with c show ?thesis by blast
qed

theorem banned_rows_never_present_witness:
  "example_row ''Produce'' 1002 2 \<in> set (df_inventory (uploads init example_uploads))
   \<and> (\<exists>c. Merchandise_Category (example_row ''Produce'' 1002 2) = Str c
          \<and> (\<forall>bad\<in>set BANNED_CATS. \<not> prefix bad c) \<and> c \<noteq> ''Lamb-Ground'')"
proof -
  have h: "example_row ''Produce'' 1002 2 \<in> set (df_inventory (uploads init example_uploads))"
    by code_simp
  from banned_rows_never_present [OF h] h show ?thesis by blast
qed

text \<open>
  C7. When two uploads go through, the table afterwards holds, for every article of which the
  second upload has a row left by the banned-category filter, exactly one row: the last such
  row of the second upload, whatever the first upload held for that article. For an article of
  which the second upload has no row left, the table holds what it held after the first
  upload. After each of the two uploads no two rows of the table share an article.
\<close>

theorem second_upload_wins:
  assumes first: "upload_excel s (Frame col1 (Some rows1)) = (s1, Returned)"
    and second: "upload_excel s1 (Frame col2 (Some rows2)) = (s2, Returned)"
    and kept: "kept = filter (\<lambda>x. Article x = a)
                 (filter (\<lambda>x. is_banned (Merchandise_Category x) = Inr False) rows2)"
  shows "distinct (map Article (df_inventory s1)) \<and> distinct (map Article (df_inventory s2))
       \<and> (kept \<noteq> [] \<longrightarrow> filter (\<lambda>x. Article x = a) (df_inventory s2) = [last kept])
       \<and> (kept = [] \<longrightarrow>
            filter (\<lambda>x. Article x = a) (df_inventory s2)
              = filter (\<lambda>x. Article x = a) (df_inventory s1))"
proof -
  from second obtain new_df where new: "select_rows not_banned rows2 = Inr new_df"
    by (auto simp: upload_excel_Frame split: sum.splits)
  then have "new_df = filter (\<lambda>r. not_banned r = Inr True) rows2"
    using select_rows_Inr by blast
  then have new_df: "new_df = filter (\<lambda>x. is_banned (Merchandise_Category x) = Inr False) rows2"
    by (simp add: not_banned_is_banned)
  define table where "table = (if df_inventory s1 = [] then new_df else df_inventory s1 @ new_df)"
  have df2: "df_inventory s2 = drop_duplicates_last table"
    using second new by (auto simp: upload_excel_Frame table_def)
  have split: "filter (\<lambda>x. Article x = a) table = filter (\<lambda>x. Article x = a) (df_inventory s1) @ kept"
    by (simp add: table_def kept new_df)
  from first have "\<exists>t. df_inventory s1 = drop_duplicates_last t"
    by (auto simp: upload_excel_Frame split: sum.splits)
  then have d1: "distinct (map Article (df_inventory s1))"
    using drop_duplicates_last_distinct by auto
  have d2: "distinct (map Article (df_inventory s2))"
    by (simp add: df2 drop_duplicates_last_distinct)
  have won: "filter (\<lambda>x. Article x = a) (df_inventory s2) = [last kept]" if "kept \<noteq> []"
    using that by (simp add: df2 drop_duplicates_last_filter split)
  have stays: "filter (\<lambda>x. Article x = a) (df_inventory s2)
      = filter (\<lambda>x. Article x = a) (df_inventory s1)" if "kept = []"
  proof -
    have "filter (\<lambda>x. Article x = a) (df_inventory s1)
        = filter (\<lambda>x. Article x = a) (drop_duplicates_last (df_inventory s1))"
      using d1 by (simp add: drop_duplicates_last_id)
    also have "\<dots> = filter (\<lambda>x. Article x = a) (drop_duplicates_last table)"
      using that by (simp only: drop_duplicates_last_filter split append_Nil2)
    finally show ?thesis by (simp add: df2)
  qed
  from d1 d2 won stays show ?thesis by blast
qed

theorem second_upload_wins_witness:
  "snd (upload_excel init example_first_upload) = Returned
   \<and> snd (upload_excel (fst (upload_excel init example_first_upload)) example_repeated_upload)
       = Returned
   \<and> filter (\<lambda>x. Article x = Num 1001)
        (df_inventory (fst (upload_excel (fst (upload_excel init example_first_upload))
           example_repeated_upload)))
       = [example_row ''Produce'' 1001 0]
   \<and> snd (upload_excel (fst (upload_excel init example_first_upload)) example_banned_upload)
       = Returned
   \<and> filter (\<lambda>x. Article x = Num 1001)
        (df_inventory (fst (upload_excel (fst (upload_excel init example_first_upload))
           example_banned_upload)))
       = [example_row ''Produce'' 1001 5]"
proof -
  let ?s1 = "fst (upload_excel init example_first_upload)"
  let ?s2 = "fst (upload_excel ?s1 example_repeated_upload)"
  let ?s3 = "fst (upload_excel ?s1 example_banned_upload)"
  let ?rows2 = "[example_row ''Produce'' 1001 3, example_row ''Produce'' 1002 7,
                 example_row ''Produce'' 1001 0]"
  let ?rows3 = "[example_row ''Lamb-Ground'' 1001 0]"
  have o1: "snd (upload_excel init example_first_upload) = Returned"
    by code_simp
  have o2: "snd (upload_excel ?s1 example_repeated_upload) = Returned"
    by code_simp
  have o3: "snd (upload_excel ?s1 example_banned_upload) = Returned"
    by code_simp
  have first: "upload_excel init (Frame [Str ''Produce''] (Some [example_row ''Produce'' 1001 5]))
      = (?s1, Returned)"
    using o1 by (simp add: example_first_upload_def prod_eq_iff)
  have second: "upload_excel ?s1 (Frame [Str ''Produce''] (Some ?rows2)) = (?s2, Returned)"
    using o2 by (simp add: example_repeated_upload_def prod_eq_iff)
  have third: "upload_excel ?s1 (Frame [Str ''Meat''] (Some ?rows3)) = (?s3, Returned)"
    using o3 by (simp add: example_banned_upload_def prod_eq_iff)
  have kept2: "filter (\<lambda>x. Article x = Num 1001)
      (filter (\<lambda>x. is_banned (Merchandise_Category x) = Inr False) ?rows2)
      = [example_row ''Produce'' 1001 3, example_row ''Produce'' 1001 0]"
    by (simp add: example_row_def is_banned_def BANNED_CATS_def)
  have kept3: "filter (\<lambda>x. Article x = Num 1001)
      (filter (\<lambda>x. is_banned (Merchandise_Category x) = Inr False) ?rows3) = []"
    by (simp add: example_row_def is_banned_def BANNED_CATS_def)
  have s1: "filter (\<lambda>x. Article x = Num 1001) (df_inventory ?s1) = [example_row ''Produce'' 1001 5]"
    by code_simp
  have "filter (\<lambda>x. Article x = Num 1001) (df_inventory ?s2) = [example_row ''Produce'' 1001 0]"
    using second_upload_wins [OF first second kept2 [symmetric]] by simp
  moreover have "filter (\<lambda>x. Article x = Num 1001) (df_inventory ?s3)
      = [example_row ''Produce'' 1001 5]"
    using second_upload_wins [OF first third kept3 [symmetric]] s1 by simp
  ultimately show ?thesis using o1 o2 o3 by simp
qed

text \<open>
  C10. An upload whose file is read and has the five columns goes through exactly when every
  \<open>Merchandise Category\<close> cell is a string; with any other cell (an empty one, read as the
  missing value, or a number) it ends with \<open>AttributeError\<close> leaving the handler, and the
  table is the one from before.
\<close>

theorem upload_excel_total_on_string_categories:
  assumes "upload_excel s (Frame col (Some rows)) = (s', out)"
  shows "(out = Returned \<longleftrightarrow> (\<forall>r\<in>set rows. \<exists>c. Merchandise_Category r = Str c))
       \<and> ((\<exists>r\<in>set rows. \<forall>c. Merchandise_Category r \<noteq> Str c) \<longrightarrow>
            out = Raised AttributeError \<and> df_inventory s' = df_inventory s)"
proof (cases "select_rows not_banned rows")
  case (Inl e)
  then obtain r where r: "r \<in> set rows" "not_banned r = Inl e"
    using select_rows_Inl by blast
  then have e: "e = AttributeError" and bad: "\<forall>c. Merchandise_Category r \<noteq> Str c"
    by (simp_all add: not_banned_Inl)
  from assms Inl have "out = Raised e" "df_inventory s' = df_inventory s"
    by (auto simp: upload_excel_Frame)
  with e r(1) bad show ?thesis by auto
next
  case (Inr new_df)
  then have "\<forall>r\<in>set rows. \<exists>b. not_banned r = Inr b"
    using select_rows_Inr [of not_banned rows new_df] by simp
  then have all: "\<forall>r\<in>set rows. \<exists>c. Merchandise_Category r = Str c"
    by (simp add: not_banned_Inr)
  from assms Inr have "out = Returned"
    by (auto simp: upload_excel_Frame)
  with all show ?thesis by auto
qed

theorem upload_excel_total_on_string_categories_witness:
  "Merchandise_Category example_blank_category = NaN
   \<and> snd (upload_excel init
        (Frame [Str ''Grocery''] (Some [example_row ''Produce'' 1002 2, example_blank_category])))
       = Raised AttributeError
   \<and> df_inventory (fst (upload_excel init
        (Frame [Str ''Grocery''] (Some [example_row ''Produce'' 1002 2, example_blank_category]))))
       = []"
proof -
  have h: "\<exists>r\<in>set [example_row ''Produce'' 1002 2, example_blank_category].
       \<forall>c. Merchandise_Category r \<noteq> Str c"
    by (simp add: example_blank_category_def)
  have "(\<exists>r\<in>set [example_row ''Produce'' 1002 2, example_blank_category].
            \<forall>c. Merchandise_Category r \<noteq> Str c) \<longrightarrow>
        snd (upload_excel init
          (Frame [Str ''Grocery''] (Some [example_row ''Produce'' 1002 2, example_blank_category])))
          = Raised AttributeError
        \<and> df_inventory (fst (upload_excel init
          (Frame [Str ''Grocery''] (Some [example_row ''Produce'' 1002 2, example_blank_category]))))
          = df_inventory init"
    using upload_excel_total_on_string_categories
      [OF surjective_pairing, of init "[Str ''Grocery'']"
        "[example_row ''Produce'' 1002 2, example_blank_category]"]
    by (rule conjunct2)
  with h show ?thesis by (simp add: df_inventory_init example_blank_category_def)
qed

subsection \<open>DNO store\<close>

text \<open>
  C3, as amended. Without a store file \<open>fetch_dno_articles\<close> returns the empty collection and
  creates nothing. With a file it creates the table if it is missing, adds no row and removes
  none, and, when every stored identifier reads as an integer, returns these integers, one for
  each row: every identifier in the store is represented by its integer value.
\<close>

theorem fetch_dno_articles_returns:
  "fetch_dno_articles Missing = (Missing, Inr [])
   \<and> members (fst (fetch_dno_articles db)) = members db
   \<and> (db \<noteq> Missing \<longrightarrow> fst (fetch_dno_articles db) = File (Some (rows_of db)))
   \<and> ((\<forall>a\<in>members db. py_int a \<noteq> None) \<longrightarrow>
        (\<exists>ids. snd (fetch_dno_articles db) = Inr ids
           \<and> map Some ids = map py_int (rows_of db)
           \<and> (\<forall>a\<in>members db. \<exists>n. py_int a = Some n \<and> n \<in> set ids)))"
proof -
  have a: "fetch_dno_articles Missing = (Missing, Inr [])"
    by (simp add: fetch_dno_articles_def)
  have b: "members (fst (fetch_dno_articles db)) = members db"
    by (cases db) (simp_all add: fetch_dno_articles_def create_table_if_not_exists_def members_def)
  have c: "db \<noteq> Missing \<longrightarrow> fst (fetch_dno_articles db) = File (Some (rows_of db))"
    by (cases db) (simp_all add: fetch_dno_articles_def create_table_if_not_exists_def)
  have d: "\<exists>ids. snd (fetch_dno_articles db) = Inr ids
           \<and> map Some ids = map py_int (rows_of db)
           \<and> (\<forall>a\<in>members db. \<exists>n. py_int a = Some n \<and> n \<in> set ids)"
    if ok: "\<forall>a\<in>members db. py_int a \<noteq> None"
  proof -
    from ok obtain ids where ids: "ints_of (rows_of db) = Inr ids" "map Some ids = map py_int (rows_of db)"
      using ints_of_ok [of "rows_of db"] by (auto simp: members_def)
    have "\<exists>n. py_int a = Some n \<and> n \<in> set ids" if "a \<in> members db" for a
    proof -
      from that have "py_int a \<in> set (map py_int (rows_of db))" by (simp add: members_def)
      with ids(2) have "py_int a \<in> set (map Some ids)" by simp
      then show ?thesis by auto
    qed
    moreover have "snd (fetch_dno_articles db) = Inr ids"
      using ids(1) by (cases db) (simp_all add: fetch_dno_articles_def)
    ultimately show ?thesis using ids(2) by blast
  qed
  from a b c d show ?thesis by blast
qed

theorem fetch_dno_articles_returns_witness:
  "py_int ''1001'' = Some 1001 \<and> py_int ''007'' = Some 7
   \<and> snd (fetch_dno_articles (File (Some [''1001'', ''007'']))) = Inr [1001, 7]
   \<and> fetch_dno_articles (File None) = (File (Some []), Inr [])"
proof -
  have p: "py_int ''1001'' = Some 1001" "py_int ''007'' = Some 7"
    by (simp_all add: py_int_def c_isspace_def parse_unsigned_def digit_val_def)
  then have h: "\<forall>a\<in>members (File (Some [''1001'', ''007''])). py_int a \<noteq> None"
    by (simp add: members_simps)
  from fetch_dno_articles_returns [of "File (Some [''1001'', ''007''])"] h p
  have "snd (fetch_dno_articles (File (Some [''1001'', ''007'']))) = Inr [1001, 7]"
    by auto
  moreover have "fetch_dno_articles (File None) = (File (Some []), Inr [])"
    by (simp add: fetch_dno_articles_def create_table_if_not_exists_def)
  ultimately show ?thesis using p by blast
qed

text \<open>
  The claim as stated fails twice: without a file no table is created, and after \<open>abc\<close> was
  added through the entry field the call ends with \<open>ValueError\<close> instead of a set holding it.
\<close>

theorem fetch_dno_articles_counterexample:
  "fst (fetch_dno_articles Missing) = Missing
   \<and> fst (snd (add_new_DNO init Missing ''abc'' True)) = File (Some [''abc''])
   \<and> snd (fetch_dno_articles (File (Some [''abc'']))) = Inl ValueError"
  by code_simp




text \<open>
  C5. An import from a workbook into a store adds, insert-or-ignore, the identifiers of the
  workbook (the cells of the first ten columns below the first row of every sheet, numbers by
  their integer part, strings as they are) and reports how many of them were not in the store
  before (as \<open>Imported n new DNO articles\<close>, adding the number to the session count); the store
  holds no identifier twice. The same import once more reports none
  (\<open>No new DNO articles or all duplicates\<close>) and leaves store and session as they were after
  the first.
\<close>

theorem import_dno_twice:
  assumes wf: "wf_store db"
    and first: "import_dno s db (Excel_file (Inr book)) = (s1, db1, out1)"
  shows "members db1 = members db
           \<union> {str_int (int_of_num q) |q.
                \<exists>sheet\<in>set book. \<exists>row\<in>set (tl sheet). Num q \<in> set (take 10 row)}
           \<union> {t. \<exists>sheet\<in>set book. \<exists>row\<in>set (tl sheet). Str t \<in> set (take 10 row)}
       \<and> out1 = Shown (import_report (card (members db1 - members db)))
       \<and> new_found_dnos s1 = new_found_dnos s + card (members db1 - members db)
       \<and> wf_store db1
       \<and> import_dno s1 db1 (Excel_file (Inr book)) = (s1, db1, Shown (import_report 0))
       \<and> import_report 0 = Alert [] ''No new DNO articles or all duplicates.''
       \<and> (\<forall>n>0. import_report n = Alert [] (''Imported '' @ str_nat n @ '' new DNO articles.''))"
proof -
  from import_dno_excel [of book db s] obtain rows where
      ins: "insert_all (all_values (read_excel book)) (rows_of db) = Inr rows"
    and set_rows: "set rows = members db
          \<union> {a. \<exists>c\<in>set (all_values (read_excel book)). normalize c = Inr a}"
    and dist: "distinct rows"
    and res: "import_dno s db (Excel_file (Inr book)) =
         (if length rows - length (rows_of db) > 0
          then s\<lparr>new_found_dnos := new_found_dnos s + (length rows - length (rows_of db))\<rparr> else s,
          File (Some rows),
          Shown (import_report (length rows - length (rows_of db))))"
    using wf by blast
  from first res have db1: "db1 = File (Some rows)"
    and out1: "out1 = Shown (import_report (length rows - length (rows_of db)))"
    and s1: "s1 = (if length rows - length (rows_of db) > 0
          then s\<lparr>new_found_dnos := new_found_dnos s + (length rows - length (rows_of db))\<rparr> else s)"
    by simp_all
  have held: "members db1 = members db
           \<union> {str_int (int_of_num q) |q.
                \<exists>sheet\<in>set book. \<exists>row\<in>set (tl sheet). Num q \<in> set (take 10 row)}
           \<union> {t. \<exists>sheet\<in>set book. \<exists>row\<in>set (tl sheet). Str t \<in> set (take 10 row)}"
    using set_rows db1 by (simp only: members_simps stored_identifiers Un_assoc)
  have sub: "set (rows_of db) \<subseteq> set rows"
    using set_rows by (auto simp: members_def)
  have diff: "length rows - length (rows_of db) = card (members db1 - members db)"
    using length_diff_card [OF _ dist sub] wf db1 by (simp add: wf_store_def members_def)
  have again: "insert_all (all_values (read_excel book)) rows = Inr rows"
  proof (rule insert_all_again, rule ballI)
    fix c assume c: "c \<in> set (all_values (read_excel book))"
    then have "c \<noteq> NaN" by (simp add: all_values_iff)
    then obtain a where a: "normalize c = Inr a" using normalize_defined by blast
    with c set_rows have "a \<in> set rows" by auto
    with a show "\<exists>a. normalize c = Inr a \<and> a \<in> set rows" by blast
  qed
  have second: "import_dno s1 db1 (Excel_file (Inr book)) = (s1, db1, Shown (import_report 0))"
    using again db1 by (simp add: import_dno_def Let_def)
  have count: "new_found_dnos s1 = new_found_dnos s + (length rows - length (rows_of db))"
    using s1 by simp
  have wf1: "wf_store db1"
    using dist db1 by (simp add: wf_store_def)
  have reports: "import_report 0 = Alert [] ''No new DNO articles or all duplicates.''"
    "\<forall>n>0. import_report n = Alert [] (''Imported '' @ str_nat n @ '' new DNO articles.'')"
    by (simp_all add: import_report_def)
  from held diff out1 count wf1 second reports show ?thesis
    by (simp only: simp_thms)
qed

theorem import_dno_twice_witness:
  "wf_store Missing
   \<and> fst (snd (import_dno init Missing (Excel_file (Inr example_workbook))))
       = File (Some [''123'', ''123.0'', ''Lamb'', ''A-77'', ''1001''])
   \<and> snd (snd (import_dno init Missing (Excel_file (Inr example_workbook))))
       = Shown (Alert [] ''Imported 5 new DNO articles.'')
   \<and> snd (snd (import_dno
        (fst (import_dno init Missing (Excel_file (Inr example_workbook))))
        (fst (snd (import_dno init Missing (Excel_file (Inr example_workbook)))))
        (Excel_file (Inr example_workbook))))
       = Shown (Alert [] ''No new DNO articles or all duplicates.'')
   \<and> fst (snd (import_dno
        (fst (import_dno init Missing (Excel_file (Inr example_workbook))))
        (fst (snd (import_dno init Missing (Excel_file (Inr example_workbook)))))
        (Excel_file (Inr example_workbook))))
       = File (Some [''123'', ''123.0'', ''Lamb'', ''A-77'', ''1001''])"
proof -
  have wf: "wf_store Missing" by (simp add: wf_store_def)
  have first: "import_dno init Missing (Excel_file (Inr example_workbook)) =
      (fst (import_dno init Missing (Excel_file (Inr example_workbook))),
       fst (snd (import_dno init Missing (Excel_file (Inr example_workbook)))),
       snd (snd (import_dno init Missing (Excel_file (Inr example_workbook)))))"
    by simp
  have "import_dno
        (fst (import_dno init Missing (Excel_file (Inr example_workbook))))
        (fst (snd (import_dno init Missing (Excel_file (Inr example_workbook)))))
        (Excel_file (Inr example_workbook))
      = (fst (import_dno init Missing (Excel_file (Inr example_workbook))),
         fst (snd (import_dno init Missing (Excel_file (Inr example_workbook)))),
         Shown (Alert [] ''No new DNO articles or all duplicates.''))"
    using import_dno_twice [OF wf first] by simp
  with wf example_import show ?thesis by simp
qed

text \<open>
  C8. Without a store file \<open>export_dno\<close> shows the error and the destination is as before.
  With one, and a destination that can be written, the destination holds the content of the
  store afterwards; when the copy fails, the error is shown and the destination is as before.
\<close>

theorem export_dno_copies:
  "export_dno Missing d = (d, Shown (Alert ''Error'' ''No local dno.db found to export.''))
   \<and> (copy_fails d = None \<longrightarrow>
        export_dno (File content) d =
          (d\<lparr>dst_file := Some content\<rparr>,
           Shown (Alert ''Success'' (''dno.db exported to:'' @ [CHR 0x0A] @ dst_path d))))
   \<and> (\<forall>e. copy_fails d = Some e \<longrightarrow>
        export_dno (File content) d = (d, Shown (Alert ''Error'' (''Unable to export dno.db: '' @ e))))"
  by (simp add: export_dno_def)

theorem export_dno_copies_witness:
  "copy_fails example_downloads = None
   \<and> dst_file (fst (export_dno (File (Some [''1001''])) example_downloads)) = Some (Some [''1001''])
   \<and> dst_file (fst (export_dno Missing example_downloads)) = None
   \<and> copy_fails (example_downloads\<lparr>copy_fails := Some ''Permission denied''\<rparr>)
       = Some ''Permission denied''
   \<and> dst_file (fst (export_dno (File (Some [''1001'']))
         (example_downloads\<lparr>copy_fails := Some ''Permission denied''\<rparr>))) = None"
proof -
  have h: "copy_fails example_downloads = None"
    by (simp add: example_downloads_def)
  have n: "dst_file example_downloads = None"
    by (simp add: example_downloads_def)
  from export_dno_copies [of example_downloads "Some [''1001'']"]
    export_dno_copies [of "example_downloads\<lparr>copy_fails := Some ''Permission denied''\<rparr>"
      "Some [''1001'']"] h n
  show ?thesis by simp
qed

text \<open>
  C9. A confirmed removal of a non-empty identifier takes exactly this identifier out of the
  store and shows \<open>Success\<close> exactly when it was there. When it was not there the members
  stay as they were and a message box with another title is shown; with the table present
  this is \<open>Not Found\<close> and the file is unchanged (with no table yet it is the error sqlite
  reports, caught by the handler). No exception leaves the handler.
\<close>

theorem remove_from_DNO_reports:
  assumes run: "remove_from_DNO s db entry True = (s', db', out)"
    and entry: "strip entry \<noteq> []"
  shows "members db' = members db - {strip entry}
       \<and> (out = Shown (Alert ''Success'' (''Article '' @ strip entry @ '' removed from DNO.''))
            \<longleftrightarrow> strip entry \<in> members db)
       \<and> (strip entry \<notin> members db \<longrightarrow>
            members db' = members db
            \<and> (\<exists>title message. out = Shown (Alert title message) \<and> title \<noteq> ''Success''))
       \<and> (\<forall>xs. db = File (Some xs) \<and> strip entry \<notin> set xs \<longrightarrow>
            db' = db
            \<and> out = Shown (Alert ''Not Found'' (''Article '' @ strip entry @ '' was not in DNO.'')))
       \<and> (\<forall>e. out \<noteq> Raised e)"
proof (cases db)
  case Missing
  with run entry have "db' = File None" "out = Shown (Alert ''Error'' ''no such table: dno'')"
    by (simp_all add: remove_from_DNO_def Let_def)
  with Missing show ?thesis by (simp add: members_simps)
next
  case (File t)
  show ?thesis
  proof (cases t)
    case None
    with File run entry have "db' = File None" "out = Shown (Alert ''Error'' ''no such table: dno'')"
      by (simp_all add: remove_from_DNO_def Let_def)
    with File None show ?thesis by (simp add: members_simps)
  next
    case (Some xs)
    show ?thesis
    proof (cases "strip entry \<in> set xs")
      case True
      with File Some run entry have
        "db' = File (Some (delete_where (strip entry) xs))"
        "out = Shown (Alert ''Success'' (''Article '' @ strip entry @ '' removed from DNO.''))"
        by (simp_all add: remove_from_DNO_def Let_def rowcount_pos_iff)
      with File Some True show ?thesis
        by (simp add: members_simps members_delete_where)
    next
      case False
      with File Some run entry have
        "db' = File (Some (delete_where (strip entry) xs))"
        "out = Shown (Alert ''Not Found'' (''Article '' @ strip entry @ '' was not in DNO.''))"
        by (simp_all add: remove_from_DNO_def Let_def rowcount_pos_iff)
      with File Some False show ?thesis
        by (simp add: members_simps delete_where_absent)
    qed
  qed
qed

theorem remove_from_DNO_reports_witness:
  "strip ''9999'' \<noteq> [] \<and> ''9999'' \<notin> set [''1001'', ''1002'']
   \<and> fst (snd (remove_from_DNO init (File (Some [''1001'', ''1002''])) ''9999'' True))
       = File (Some [''1001'', ''1002''])
   \<and> snd (snd (remove_from_DNO init (File (Some [''1001'', ''1002''])) ''9999'' True))
       = Shown (Alert ''Not Found'' ''Article 9999 was not in DNO.'')"
proof -
  have s: "strip ''9999'' = ''9999''"
    by (simp add: strip_def py_isspace_def)
  then have e: "strip ''9999'' \<noteq> []" by simp
  have run: "remove_from_DNO init (File (Some [''1001'', ''1002''])) ''9999'' True =
      (fst (remove_from_DNO init (File (Some [''1001'', ''1002''])) ''9999'' True),
       fst (snd (remove_from_DNO init (File (Some [''1001'', ''1002''])) ''9999'' True)),
       snd (snd (remove_from_DNO init (File (Some [''1001'', ''1002''])) ''9999'' True)))"
    by simp
  have absent: "''9999'' \<notin> set [''1001'', ''1002'']" by simp
  from remove_from_DNO_reports [OF run e] s absent e
  show ?thesis by simp
qed

subsection \<open>Classifier\<close>

text \<open>
  C1. The claim is about every set of identifiers in the store. An identifier that does not
  read as an integer can be put there through the entry field; with it in the store
  \<open>find_zeros\<close> ends with \<open>ValueError\<close> out of \<open>fetch_dno_articles\<close>, and the row with article
  1001 and count 0, which is not in the store, is not added to the running set.
\<close>

theorem find_zeros_text_identifier:
  "fst (snd (add_new_DNO example_inventory Missing ''abc'' True)) = File (Some [''abc''])
   \<and> example_row ''Produce'' 1001 0 \<in> set (df_inventory example_inventory)
   \<and> find_zeros example_inventory (File (Some [''abc'']))
       = (example_inventory, File (Some [''abc'']), Raised ValueError)
   \<and> filtered_zeros example_inventory = {}"
proof -
  have "fst (snd (add_new_DNO example_inventory Missing ''abc'' True)) = File (Some [''abc''])"
    by code_simp
  moreover have "example_row ''Produce'' 1001 0 \<in> set (df_inventory example_inventory)"
    by (simp add: example_inventory_rows)
  moreover have "select_rows is_zero (df_inventory example_inventory)
      = Inr [example_row ''Produce'' 1001 0]"
    unfolding example_inventory_rows by code_simp
  then have "find_zeros example_inventory (File (Some [''abc'']))
       = (example_inventory, File (Some [''abc'']), Raised ValueError)"
    by (simp add: find_zeros_def example_inventory_rows fetch_dno_articles_def
        create_table_if_not_exists_def py_int_def c_isspace_def parse_unsigned_def digit_val_def)
  moreover have "filtered_zeros example_inventory = {}"
    by (simp add: example_inventory_def upload_excel_Frame init_def split: sum.splits)
  ultimately show ?thesis by blast
qed

text \<open>
  C2. On a table whose counts are numbers or missing, \<open>find_lows\<close> shows \<open>No Data\<close> and
  changes nothing when the table is empty; otherwise it adds to the running set exactly the
  articles of the rows with a count above zero and at most the threshold, which is 2, and
  shows the size of the set. The store is not consulted: a row with count 1 is added also when
  its article is among the integers \<open>fetch_dno_articles\<close> returns.
\<close>

theorem find_lows_selects:
  assumes typed: "\<forall>r\<in>set (df_inventory s). \<forall>t. Inventory r \<noteq> Str t"
  shows "(df_inventory s = [] \<longrightarrow> find_lows s = (s, Shown (Alert ''No Data'' ''Please upload Excel first.'')))
       \<and> (df_inventory s \<noteq> [] \<longrightarrow>
            (\<exists>lows. lows = filtered_lows s \<union>
                 {Article r |r. r \<in> set (df_inventory s)
                    \<and> (\<exists>q. Inventory r = Num q \<and> 0 < q \<and> q \<le> of_int LOW_THRESHOLD)}
               \<and> find_lows s = (s\<lparr>filtered_lows := lows\<rparr>,
                    Shown (Alert ''Success'' (''Found '' @ str_nat (card lows) @ '' Lows'')))
               \<and> (\<forall>r db ids. r \<in> set (df_inventory s) \<and> Inventory r = Num 1
                      \<and> snd (fetch_dno_articles db) = Inr ids \<and> isin (Article r) ids
                    \<longrightarrow> Article r \<in> lows)))
       \<and> LOW_THRESHOLD = 2"
proof -
  have sel: "select_rows is_low (df_inventory s) = Inr (filter (\<lambda>r. is_low r = Inr True) (df_inventory s))"
    using typed by (intro select_rows_total) (simp add: is_low_defined)
  have empty: "df_inventory s = [] \<longrightarrow> find_lows s = (s, Shown (Alert ''No Data'' ''Please upload Excel first.''))"
    by (simp add: find_lows_def no_data_def)
  have full: "find_lows s =
      (s\<lparr>filtered_lows := filtered_lows s \<union>
           {Article r |r. r \<in> set (df_inventory s)
              \<and> (\<exists>q. Inventory r = Num q \<and> 0 < q \<and> q \<le> of_int LOW_THRESHOLD)}\<rparr>,
       Shown (Alert ''Success'' (''Found '' @ str_nat (card (filtered_lows s \<union>
           {Article r |r. r \<in> set (df_inventory s)
              \<and> (\<exists>q. Inventory r = Num q \<and> 0 < q \<and> q \<le> of_int LOW_THRESHOLD)})) @ '' Lows'')))"
    if "df_inventory s \<noteq> []"
    using that sel by (simp add: find_lows_def Let_def low_articles del: set_map)
  have one: "Article r \<in> {Article r |r. r \<in> set (df_inventory s)
              \<and> (\<exists>q. Inventory r = Num q \<and> 0 < q \<and> q \<le> of_int LOW_THRESHOLD)}"
    if "r \<in> set (df_inventory s)" "Inventory r = Num 1" for r
    using that by (auto simp: LOW_THRESHOLD_def)
  from empty full one show ?thesis
    by (auto simp: LOW_THRESHOLD_def)
qed

theorem find_lows_selects_witness:
  "df_inventory example_inventory \<noteq> []
   \<and> map Inventory (df_inventory example_inventory) = [Num 0, Num 2, Num 5, Num 1]
   \<and> snd (fetch_dno_articles (File (Some [''1005'']))) = Inr [1005]
   \<and> Article (example_row ''Bakery'' 1005 1) \<in> filtered_lows (fst (find_lows example_inventory))
   \<and> filtered_lows (fst (find_lows example_inventory)) = {Num 1002, Num 1005}"
proof -
  have cells: "map Inventory (df_inventory example_inventory) = [Num 0, Num 2, Num 5, Num 1]"
    by (simp add: example_inventory_rows example_row_def)
  have typed: "\<forall>r\<in>set (df_inventory example_inventory). \<forall>t. Inventory r \<noteq> Str t"
    by (simp add: example_inventory_rows example_row_def)
  have ne: "df_inventory example_inventory \<noteq> []"
    by (simp add: example_inventory_rows)
  have dno: "snd (fetch_dno_articles (File (Some [''1005'']))) = Inr [1005]"
    by code_simp
  have row: "example_row ''Bakery'' 1005 1 \<in> set (df_inventory example_inventory)"
    "Inventory (example_row ''Bakery'' 1005 1) = Num 1"
    "isin (Article (example_row ''Bakery'' 1005 1)) [1005]"
    by (simp_all add: example_inventory_rows example_row_def isin_def)
  from find_lows_selects [OF typed] ne dno row
  have "Article (example_row ''Bakery'' 1005 1) \<in> filtered_lows (fst (find_lows example_inventory))"
    by auto
  moreover have "filtered_lows (fst (find_lows example_inventory)) = {Num 1002, Num 1005}"
    by code_simp
  ultimately show ?thesis using cells ne dno by blast
qed

end
